theory Spec2Isabelle
  imports Complex_Main
begin

section \<open>JavaScript numbers\<close>

text \<open>
  The calculator of \<^verbatim>\<open>src/index.js\<close> works on JavaScript numbers. A number is modelled as
  an exact real, or one of the three special values that the arithmetic of the language
  produces instead of raising an error: \<open>Infinity\<close>, \<open>-Infinity\<close> and \<open>NaN\<close>.
  Finite results are exact: the rounding and the overflow of the 64-bit format are not
  modelled. Zero is the positive zero; the only divisors of the program that can be zero
  are \<open>Math.PI * Math.pow(d/2, 2)\<close>, which is never the negative zero, so the sign that a
  division by zero yields is the sign of the dividend.
\<close>

datatype jsnum = Num real | PInf | NInf | NaN

fun js_add :: "jsnum \<Rightarrow> jsnum \<Rightarrow> jsnum" where
  "js_add (Num a) (Num b) = Num (a + b)"
| "js_add NaN _ = NaN"
| "js_add _ NaN = NaN"
| "js_add PInf NInf = NaN"
| "js_add NInf PInf = NaN"
| "js_add PInf _ = PInf"
| "js_add _ PInf = PInf"
| "js_add NInf _ = NInf"
| "js_add _ NInf = NInf"

fun js_mul :: "jsnum \<Rightarrow> jsnum \<Rightarrow> jsnum" where
  "js_mul (Num a) (Num b) = Num (a * b)"
| "js_mul NaN _ = NaN"
| "js_mul _ NaN = NaN"
| "js_mul PInf (Num b) = (if b = 0 then NaN else if 0 < b then PInf else NInf)"
| "js_mul (Num a) PInf = (if a = 0 then NaN else if 0 < a then PInf else NInf)"
| "js_mul NInf (Num b) = (if b = 0 then NaN else if 0 < b then NInf else PInf)"
| "js_mul (Num a) NInf = (if a = 0 then NaN else if 0 < a then NInf else PInf)"
| "js_mul PInf PInf = PInf"
| "js_mul PInf NInf = NInf"
| "js_mul NInf PInf = NInf"
| "js_mul NInf NInf = PInf"

text \<open>Division never raises: a zero divisor gives an infinity, or \<open>NaN\<close> for \<open>0/0\<close>.\<close>

fun js_div :: "jsnum \<Rightarrow> jsnum \<Rightarrow> jsnum" where
  "js_div (Num a) (Num b) =
     (if b = 0 then (if a = 0 then NaN else if 0 < a then PInf else NInf)
      else Num (a / b))"
| "js_div NaN _ = NaN"
| "js_div _ NaN = NaN"
| "js_div (Num a) PInf = Num 0"
| "js_div (Num a) NInf = Num 0"
| "js_div PInf (Num b) = (if 0 \<le> b then PInf else NInf)"
| "js_div NInf (Num b) = (if 0 \<le> b then NInf else PInf)"
| "js_div PInf PInf = NaN"
| "js_div PInf NInf = NaN"
| "js_div NInf PInf = NaN"
| "js_div NInf NInf = NaN"

text \<open>\<open>Math.pow\<close> for the exponents of the program, which are natural numbers.\<close>

fun Math_pow :: "jsnum \<Rightarrow> nat \<Rightarrow> jsnum" where
  "Math_pow (Num a) n = Num (a ^ n)"
| "Math_pow NaN n = (if n = 0 then Num 1 else NaN)"
| "Math_pow PInf n = (if n = 0 then Num 1 else PInf)"
| "Math_pow NInf n = (if n = 0 then Num 1 else if even n then PInf else NInf)"




text \<open>The comparisons \<open>>=\<close> and \<open>>\<close> are false as soon as one side is \<open>NaN\<close>.\<close>

fun js_ge :: "jsnum \<Rightarrow> jsnum \<Rightarrow> bool" where
  "js_ge (Num a) (Num b) = (b \<le> a)"
| "js_ge NaN _ = False"
| "js_ge _ NaN = False"
| "js_ge PInf _ = True"
| "js_ge _ NInf = True"
| "js_ge _ _ = False"





text \<open>
  \<open>Math.PI\<close> is the double nearest to \<open>\<pi>\<close>, \<open>0x400921FB54442D18\<close>: its exact value is
  \<open>884279719003555 / 2^48\<close> (3.141592653589793...).
\<close>

definition Math_PI :: real where
  "Math_PI = 884279719003555 / 281474976710656"

section \<open>The material catalog\<close>

record material =
  rho_mm2_per_m :: real
  note_text :: string

text \<open>The notes hold a dash (U+2014), written here as its three UTF-8 bytes.\<close>

definition em_dash :: string where
  "em_dash = [CHR 0xE2, CHR 0x80, CHR 0x94]"

definition materials :: "(string \<times> material) list" where
  "materials =
    [(''Kanthal A1'',
        \<lparr>rho_mm2_per_m = 145 / 100, note_text = ''Kanthal A1 (good for wattage, not for TC)''\<rparr>),
     (''Nichrome (Ni80)'',
        \<lparr>rho_mm2_per_m = 109 / 100,
         note_text = ''Nichrome '' @ em_dash @ '' high resistivity, not for TC typically''\<rparr>),
     (''SS316L'',
        \<lparr>rho_mm2_per_m = 75 / 100,
         note_text = ''Stainless Steel 316L '' @ em_dash @ '' works with TC and VW''\<rparr>),
     (''Ni200'',
        \<lparr>rho_mm2_per_m = 70 / 100,
         note_text = ''Nickel 200 '' @ em_dash @ '' TC only, fragile''\<rparr>),
     (''Titanium (Ti)'',
        \<lparr>rho_mm2_per_m = 42 / 100,
         note_text = ''Titanium '' @ em_dash @ '' TC only, use with care''\<rparr>)]"

text \<open>
  \<open>materials\<close> is an object literal, so \<open>materials[key]\<close> also finds the properties that
  every object inherits from \<open>Object.prototype\<close>. None of them has a property
  \<open>rho_mm2_per_m\<close> or \<open>note\<close>.
\<close>

definition Object_prototype_keys :: "string list" where
  "Object_prototype_keys =
    [''constructor'', ''__proto__'', ''hasOwnProperty'', ''isPrototypeOf'',
     ''propertyIsEnumerable'', ''toLocaleString'', ''toString'', ''valueOf'',
     ''__defineGetter__'', ''__defineSetter__'', ''__lookupGetter__'', ''__lookupSetter__'']"

datatype 'a property = Undefined | Own 'a | Inherited

definition materials_get :: "string \<Rightarrow> material property" where
  "materials_get k =
     (case map_of materials k of
        Some m \<Rightarrow> Own m
      | None \<Rightarrow> if k \<in> set Object_prototype_keys then Inherited else Undefined)"

text \<open>The only exception of the calculation: reading a property of \<open>undefined\<close>.\<close>

datatype error = TypeError

text \<open>
  \<open>mat.rho_mm2_per_m\<close>, as the number that the multiplication \<open>rho * Lm\<close> sees: the read
  throws when \<open>mat\<close> is \<open>undefined\<close>, and a missing property is \<open>undefined\<close>, which
  the multiplication converts to \<open>NaN\<close>.
\<close>

fun rho_of :: "material property \<Rightarrow> error + jsnum" where
  "rho_of Undefined = Inl TypeError"
| "rho_of (Own m) = Inr (Num (rho_mm2_per_m m))"
| "rho_of Inherited = Inr NaN"

section \<open>Coil geometry and resistance\<close>

definition mmToMeters :: "jsnum \<Rightarrow> jsnum" where
  "mmToMeters x = js_div x (Num 1000)"

definition computeLengthMeters :: "jsnum \<Rightarrow> jsnum \<Rightarrow> jsnum \<Rightarrow> jsnum" where
  "computeLengthMeters wrapsCount coilIDmm legsMm =
     (let circMm = js_mul (Num Math_PI) coilIDmm;
          lengthMm = js_add (js_mul circMm wrapsCount) legsMm
      in mmToMeters lengthMm)"

definition areaMm2 :: "jsnum \<Rightarrow> jsnum" where
  "areaMm2 diameterMm = js_mul (Num Math_PI) (Math_pow (js_div diameterMm (Num 2)) 2)"

definition computeResistanceOhm ::
  "string \<Rightarrow> jsnum \<Rightarrow> jsnum \<Rightarrow> jsnum \<Rightarrow> jsnum \<Rightarrow> error + jsnum" where
  "computeResistanceOhm materialKey wireDiameterMm wrapsCount coilIDmm legsMm =
     (case rho_of (materials_get materialKey) of
        Inl e \<Rightarrow> Inl e
      | Inr rho \<Rightarrow>
          (let Lm = computeLengthMeters wrapsCount coilIDmm legsMm;
               A_mm2 = areaMm2 wireDiameterMm;
               R = js_div (js_mul rho Lm) A_mm2
           in Inr R))"

section \<open>The search for a wrap count\<close>

record WrapSolution =
  wraps :: nat
  resistance :: jsnum

text \<open>
  The loop \<open>for (let w = 1; w <= maxWraps; w++)\<close> with its fallback after the loop. The
  counter and the bound are natural numbers; \<open>w0\<close> is the current value of the counter.
\<close>

function findWraps_from ::
  "string \<Rightarrow> jsnum \<Rightarrow> jsnum \<Rightarrow> jsnum \<Rightarrow> jsnum \<Rightarrow> nat \<Rightarrow> nat \<Rightarrow> error + WrapSolution" where
  "findWraps_from materialKey wireDiameterMm coilIDmm legsMm targetOhm maxWraps w0 =
     (if w0 \<le> maxWraps then
        (case computeResistanceOhm materialKey wireDiameterMm (Num (real w0)) coilIDmm legsMm of
           Inl e \<Rightarrow> Inl e
         | Inr r \<Rightarrow>
             if js_ge r targetOhm then Inr \<lparr>wraps = w0, resistance = r\<rparr>
             else findWraps_from materialKey wireDiameterMm coilIDmm legsMm targetOhm
                    maxWraps (Suc w0))
      else
        (case computeResistanceOhm materialKey wireDiameterMm (Num (real maxWraps)) coilIDmm
                legsMm of
           Inl e \<Rightarrow> Inl e
         | Inr r \<Rightarrow> Inr \<lparr>wraps = maxWraps, resistance = r\<rparr>))"
  by pat_completeness auto
termination
  by (relation "measure (\<lambda>(k, d, c, l, t, m, w). Suc m - w)") auto

declare findWraps_from.simps [simp del]

definition findWrapsForTarget ::
  "string \<Rightarrow> jsnum \<Rightarrow> jsnum \<Rightarrow> jsnum \<Rightarrow> jsnum \<Rightarrow> nat \<Rightarrow> error + WrapSolution" where
  "findWrapsForTarget materialKey wireDiameterMm coilIDmm legsMm targetOhm maxWraps =
     findWraps_from materialKey wireDiameterMm coilIDmm legsMm targetOhm maxWraps 1"


section \<open>Current, power and the safety check\<close>




section \<open>Numbers as text\<close>








section \<open>The exported profile\<close>







section \<open>The behaviour that the specification describes\<close>

text \<open>
  Definitions after the words of the specification, for the places where it is compared
  with the program. Section 4.2: the area fails with \<open>InvalidDimension\<close> for a diameter
  that is not positive. Section 4.4: the current divides by \<open>max(resistanceOhm, \<epsilon>)\<close> with
  \<open>\<epsilon> = 1e-6\<close>, and the power is \<open>current\<^sup>2 \<times> resistance\<close>.
\<close>

datatype spec_error = UnknownMaterial | InvalidDimension

definition crossSectionAreaMm2_spec :: "real \<Rightarrow> spec_error + real" where
  "crossSectionAreaMm2_spec diameterMm =
     (if diameterMm \<le> 0 then Inl InvalidDimension else Inr (Math_PI * (diameterMm / 2)\<^sup>2))"







section \<open>Facts about the geometry and the catalog\<close>


lemma catalog_rho_of:
  "map_of materials k = Some m \<Longrightarrow> rho_of (materials_get k) = Inr (Num (rho_mm2_per_m m))"
  by (simp add: materials_get_def)




lemma computeResistanceOhm_Inr:
  "rho_of (materials_get k) = Inr rho \<Longrightarrow>
   computeResistanceOhm k d w c l =
     Inr (js_div (js_mul rho (computeLengthMeters w c l)) (areaMm2 d))"
  by (simp add: computeResistanceOhm_def)


lemma SS316L_entry:
  "map_of materials ''SS316L'' = Some \<lparr>rho_mm2_per_m = 75 / 100,
         note_text = ''Stainless Steel 316L '' @ em_dash @ '' works with TC and VW''\<rparr>"
  by (simp add: materials_def)

lemmas resistance_eval =
  computeResistanceOhm_def materials_get_def materials_def computeLengthMeters_def
  mmToMeters_def areaMm2_def Math_PI_def power2_eq_square


section \<open>The scan of \<open>findWrapsForTarget\<close>\<close>

text \<open>
  Whatever the numbers are, as long as the resistance computation does not throw: the
  loop started at \<open>w0\<close> returns the first count from \<open>w0\<close> to \<open>M\<close> whose resistance
  passes the test \<open>r >= targetOhm\<close>, or \<open>M\<close> when none does.
\<close>

lemma findWraps_from_scan:
  assumes R: "\<And>w. computeResistanceOhm k d (Num (real w)) c l = Inr (R w)"
  shows "\<exists>w. findWraps_from k d c l t M w0 = Inr \<lparr>wraps = w, resistance = R w\<rparr> \<and>
           ((w0 \<le> w \<and> w \<le> M \<and> js_ge (R w) t \<and>
               (\<forall>v. w0 \<le> v \<and> v < w \<longrightarrow> \<not> js_ge (R v) t))
            \<or> (w = M \<and> (\<forall>v. w0 \<le> v \<and> v \<le> M \<longrightarrow> \<not> js_ge (R v) t)))"
  using R
proof (induction k d c l t M w0 rule: findWraps_from.induct)
  case (1 k d c l t M w0)
  note R = "1.prems"
  show ?case
  proof (cases "w0 \<le> M")
    case False
    then show ?thesis
      by (subst findWraps_from.simps) (auto simp: R)
  next
    case le: True
    show ?thesis
    proof (cases "js_ge (R w0) t")
      case True
      with le show ?thesis
        by (subst findWraps_from.simps) (auto simp: R)
    next
      case False
      from "1.IH"[OF le R False R]
      obtain w where w: "findWraps_from k d c l t M (Suc w0) = Inr \<lparr>wraps = w, resistance = R w\<rparr>"
        and d: "(Suc w0 \<le> w \<and> w \<le> M \<and> js_ge (R w) t \<and>
                  (\<forall>v. Suc w0 \<le> v \<and> v < w \<longrightarrow> \<not> js_ge (R v) t))
            \<or> (w = M \<and> (\<forall>v. Suc w0 \<le> v \<and> v \<le> M \<longrightarrow> \<not> js_ge (R v) t))"
        by blast
      have eq: "findWraps_from k d c l t M w0 = findWraps_from k d c l t M (Suc w0)"
        using le False by (subst findWraps_from.simps) (simp add: R)
      have step: "\<And>v. w0 \<le> v \<Longrightarrow> v = w0 \<or> Suc w0 \<le> v" by arith
      from d show ?thesis
      proof
        assume a: "Suc w0 \<le> w \<and> w \<le> M \<and> js_ge (R w) t \<and>
                     (\<forall>v. Suc w0 \<le> v \<and> v < w \<longrightarrow> \<not> js_ge (R v) t)"
        have "\<forall>v. w0 \<le> v \<and> v < w \<longrightarrow> \<not> js_ge (R v) t"
          using a False step by blast
        with a w eq show ?thesis by (intro exI[of _ w]) auto
      next
        assume a: "w = M \<and> (\<forall>v. Suc w0 \<le> v \<and> v \<le> M \<longrightarrow> \<not> js_ge (R v) t)"
        have "\<forall>v. w0 \<le> v \<and> v \<le> M \<longrightarrow> \<not> js_ge (R v) t"
          using a False step by blast
        with a w eq show ?thesis by (intro exI[of _ w]) auto
      qed
    qed
  qed
qed

section \<open>The claims\<close>







text \<open>
  C10. For a material of the catalog, a wire diameter \<open>d > 0\<close>, an inner diameter
  \<open>c > 0\<close>, a leg length \<open>l \<ge> 0\<close>, any target (also \<open>NaN\<close> or an infinity) and
  \<open>maxWraps \<ge> 1\<close>, \<open>findWrapsForTarget\<close> returns a solution with
  \<open>1 \<le> wraps \<le> maxWraps\<close> whose resistance field is what \<open>computeResistanceOhm\<close> computes
  for exactly that wrap count with the same material and geometry.
\<close>

theorem C10_solution_in_range:
  assumes "map_of materials materialKey = Some m" and "0 < d" and "0 < c" and "0 \<le> l"
    and "1 \<le> maxWraps"
  shows "\<exists>s. findWrapsForTarget materialKey (Num d) (Num c) (Num l) targetOhm maxWraps = Inr s \<and>
           1 \<le> wraps s \<and> wraps s \<le> maxWraps \<and>
           computeResistanceOhm materialKey (Num d) (Num (real (wraps s))) (Num c) (Num l) =
             Inr (resistance s)"
proof -
  define R where "R = (\<lambda>w::nat.
    js_div (js_mul (Num (rho_mm2_per_m m)) (computeLengthMeters (Num (real w)) (Num c) (Num l)))
      (areaMm2 (Num d)))"
  have R: "\<And>w. computeResistanceOhm materialKey (Num d) (Num (real w)) (Num c) (Num l) = Inr (R w)"
    unfolding R_def by (rule computeResistanceOhm_Inr[OF catalog_rho_of[OF assms(1)]])
  from findWraps_from_scan[where R = R, OF R, of targetOhm maxWraps 1]
  obtain w where w: "findWraps_from materialKey (Num d) (Num c) (Num l) targetOhm maxWraps 1 =
       Inr \<lparr>wraps = w, resistance = R w\<rparr>"
    and cases: "(1 \<le> w \<and> w \<le> maxWraps) \<or> w = maxWraps"
    by blast
  have "1 \<le> w \<and> w \<le> maxWraps" using cases assms(5) by auto
  then show ?thesis
    using w R unfolding findWrapsForTarget_def
    by (intro exI[of _ "\<lparr>wraps = w, resistance = R w\<rparr>"]) simp
qed

theorem C10_witness:
  "\<exists>s. findWrapsForTarget ''SS316L'' (Num (2 / 5)) (Num 3) (Num 6) NaN 60 = Inr s \<and>
      1 \<le> wraps s \<and> wraps s \<le> 60 \<and>
      computeResistanceOhm ''SS316L'' (Num (2 / 5)) (Num (real (wraps s))) (Num 3) (Num 6) =
        Inr (resistance s)"
  using C10_solution_in_range[OF SS316L_entry, of "2 / 5" 3 6 60 NaN] by simp

text \<open>
  C2 as the specification has it: for every diameter \<open>d \<le> 0\<close> the area computation
  fails with \<open>InvalidDimension\<close>. The program has no such check: at 0 it returns the
  number 0, and at \<open>-2\<close> the number \<open>\<pi>\<close>.
\<close>

theorem C2_counterexample:
  "crossSectionAreaMm2_spec 0 = Inl InvalidDimension \<and> areaMm2 (Num 0) = Num 0 \<and>
   crossSectionAreaMm2_spec (- 2) = Inl InvalidDimension \<and> areaMm2 (Num (- 2)) = Num Math_PI"
  by (simp add: crossSectionAreaMm2_spec_def areaMm2_def)

text \<open>
  C2, amended. For every finite diameter, positive or not, the area computation returns
  the number \<open>\<pi> \<times> (d/2)\<^sup>2\<close>; it never fails.
\<close>

theorem C2_area_total:
  "areaMm2 (Num d) = Num (Math_PI * (d / 2)\<^sup>2)"
  by (simp add: areaMm2_def)




text \<open>
  C6 as the specification has it: every id that is not a key of the catalog makes the
  lookup, and every resistance computation with it, fail. The id \<open>constructor\<close> is not a
  key, but \<open>materials[''constructor'']\<close> is the inherited property of the object: nothing
  fails and the resistance is \<open>NaN\<close>.
\<close>

theorem C6_counterexample:
  "map_of materials ''constructor'' = None \<and>
   computeResistanceOhm ''constructor'' (Num (2 / 5)) (Num 5) (Num 3) (Num 6) = Inr NaN"
  by (simp add: resistance_eval Object_prototype_keys_def)

text \<open>
  C6, amended. For every id that is a key of the catalog the lookup returns that
  material's entry unchanged. For every id that is neither a key nor the name of a
  property inherited from \<open>Object.prototype\<close>, the lookup gives \<open>undefined\<close> and every
  resistance computation with that id (\<open>computeResistanceOhm\<close>, \<open>findWrapsForTarget\<close>)
  throws a \<open>TypeError\<close>, whatever the other arguments; no default material is
  substituted.
\<close>

theorem C6_lookup:
  "(map_of materials k = Some m \<longrightarrow>
      materials_get k = Own m \<and> rho_of (materials_get k) = Inr (Num (rho_mm2_per_m m))) \<and>
   (map_of materials k = None \<and> k \<notin> set Object_prototype_keys \<longrightarrow>
      materials_get k = Undefined \<and>
      computeResistanceOhm k d w c l = Inl TypeError \<and>
      findWrapsForTarget k d c l t maxWraps = Inl TypeError)"
  by (auto simp: materials_get_def computeResistanceOhm_def findWrapsForTarget_def
      findWraps_from.simps)

theorem C6_witness:
  "materials_get ''SS316L'' = Own \<lparr>rho_mm2_per_m = 75 / 100,
         note_text = ''Stainless Steel 316L '' @ em_dash @ '' works with TC and VW''\<rparr> \<and>
   computeResistanceOhm ''Copper'' (Num (2 / 5)) (Num 5) (Num 3) (Num 6) = Inl TypeError \<and>
   findWrapsForTarget ''Copper'' (Num (2 / 5)) (Num 3) (Num 6) (Num (1 / 4)) 60 = Inl TypeError"
proof -
  have "map_of materials ''Copper'' = None \<and> ''Copper'' \<notin> set Object_prototype_keys"
    by (simp add: materials_def Object_prototype_keys_def)
  then show ?thesis
    using C6_lookup[of "''SS316L''" _ "Num (2 / 5)" "Num 5" "Num 3" "Num 6" "Num (1 / 4)" 60]
          C6_lookup[of "''Copper''" _ "Num (2 / 5)" "Num 5" "Num 3" "Num 6" "Num (1 / 4)" 60]
          SS316L_entry
    by simp
qed




section \<open>Facts about the profile and the text of numbers\<close>


















section \<open>The claims on the profile\<close>





end
